theory Spec2Isabelle
  imports Main "HOL-Library.Product_Lexorder" "HOL-Library.Multiset"
begin

section \<open>Data model of lue\_vuosiraportti.py\<close>

text \<open>
  The exceptions the program can raise.  The source defines no exception class of its
  own: a failing row surfaces as one of Python's built-in exceptions.
\<close>

datatype error = KeyError | ValueError | TypeError | IndexError

text \<open>A calendar day (\<open>datetime.date\<close>) and a timestamp (\<open>datetime.datetime\<close>).\<close>

record date =
  year :: int
  month :: int
  day :: int

record datetime =
  dt_year :: int
  dt_month :: int
  dt_day :: int
  dt_hour :: int
  dt_minute :: int
  dt_second :: int
  dt_microsecond :: int

text \<open>\<open>aika.date()\<close>: the calendar date of a timestamp.\<close>

definition date_of :: "datetime \<Rightarrow> date" where
  "date_of aika = \<lparr>year = dt_year aika, month = dt_month aika, day = dt_day aika\<rparr>"

text \<open>
  One Measurement, the dictionary \<open>{"paiva": ..., "kulutus": (v1, v2, v3), "tuotanto": (v1, v2, v3)}\<close>
  built by \<open>lue_data\<close>.  The type \<open>'f\<close> stands for Python's \<open>float\<close>; the two
  tuples are literal 3-tuples.
\<close>

record 'f mittaus =
  paiva :: date
  kulutus :: "'f \<times> 'f \<times> 'f"
  tuotanto :: "'f \<times> 'f \<times> 'f"

text \<open>\<open>t[i]\<close> on a 3-tuple, for the indices \<open>range(3)\<close> produces.\<close>

fun vaihe :: "'f \<times> 'f \<times> 'f \<Rightarrow> nat \<Rightarrow> 'f" where
  "vaihe (v1, v2, v3) i = (if i = 0 then v1 else if i = 1 then v2 else v3)"

text \<open>
  The running sums of one day in watt-hours (two Python lists), and the totals of one day
  in kilowatt-hours (two Python tuples, built by \<open>tuple(...)\<close> from the lists, hence
  lists here: that they have three elements is a theorem, not a typing fact).
\<close>

record 'f summat_wh =
  kulutus_wh :: "'f list"
  tuotanto_wh :: "'f list"

record 'f summat_kwh =
  kulutus_kwh :: "'f list"
  tuotanto_kwh :: "'f list"

subsection \<open>Dictionaries\<close>

text \<open>
  A Python \<open>dict\<close> keeps its keys in insertion order, and the report iterates over
  it, so a dictionary is an association list with the keys in insertion order.
  \<open>map_of d k\<close> is the lookup (\<open>None\<close> where Python raises \<open>KeyError\<close>) and
  \<open>dict_set d k v\<close> is the assignment \<open>d[k] = v\<close>.
\<close>

type_synonym ('k, 'v) dict = "('k \<times> 'v) list"

fun dict_set :: "('k, 'v) dict \<Rightarrow> 'k \<Rightarrow> 'v \<Rightarrow> ('k, 'v) dict" where
  "dict_set [] k v = [(k, v)]"
| "dict_set ((k', v') # d) k v =
     (if k' = k then (k, v) # d else (k', v') # dict_set d k v)"

definition dict_keys :: "('k, 'v) dict \<Rightarrow> 'k list" where
  "dict_keys d = map fst d"

section \<open>The Loader: lue\_data\<close>

text \<open>
  Opening the file and splitting it into rows is the work of \<open>csv.DictReader\<close>; the
  model starts at the rows it yields.  A row maps a column name to its cell; a key is
  absent when the header does not name the column (\<open>rivi[k]\<close> then raises
  \<open>KeyError\<close>), and the cell is \<open>None\<close> when the row is shorter than the header.
\<close>

type_synonym rivi = "string \<Rightarrow> string option option"

text \<open>Sequencing of a computation that may raise.\<close>

definition sitten :: "error + 'a \<Rightarrow> ('a \<Rightarrow> error + 'b) \<Rightarrow> error + 'b" where
  "sitten r f = (case r of Inl e \<Rightarrow> Inl e | Inr x \<Rightarrow> f x)"

text \<open>\<open>rivi[k]\<close>.\<close>

definition hae :: "rivi \<Rightarrow> string \<Rightarrow> error + string option" where
  "hae rivi k = (case rivi k of None \<Rightarrow> Inl KeyError | Some v \<Rightarrow> Inr v)"

text \<open>
  \<open>float(v)\<close> and \<open>datetime.fromisoformat(v)\<close>: \<open>TypeError\<close> on \<open>None\<close>,
  \<open>ValueError\<close> on a string the library rejects.  Which strings it accepts, and what
  they denote, is the library's business: \<open>parse_float\<close> and \<open>parse_iso\<close> are parameters.
\<close>

definition py_float :: "(string \<Rightarrow> 'f option) \<Rightarrow> string option \<Rightarrow> error + 'f" where
  "py_float parse_float v =
     (case v of
        None \<Rightarrow> Inl TypeError
      | Some s \<Rightarrow> (case parse_float s of None \<Rightarrow> Inl ValueError | Some x \<Rightarrow> Inr x))"

definition fromisoformat :: "(string \<Rightarrow> datetime option) \<Rightarrow> string option \<Rightarrow> error + datetime" where
  "fromisoformat parse_iso v =
     (case v of
        None \<Rightarrow> Inl TypeError
      | Some s \<Rightarrow> (case parse_iso s of None \<Rightarrow> Inl ValueError | Some aika \<Rightarrow> Inr aika))"

text \<open>\<open>float(rivi[k])\<close>.\<close>

definition lue_float :: "(string \<Rightarrow> 'f option) \<Rightarrow> rivi \<Rightarrow> string \<Rightarrow> error + 'f" where
  "lue_float parse_float rivi k = sitten (hae rivi k) (py_float parse_float)"

text \<open>The body of \<open>for rivi in lukija\<close>, up to the Measurement that is appended.\<close>

definition lue_rivi ::
  "(string \<Rightarrow> datetime option) \<Rightarrow> (string \<Rightarrow> 'f option) \<Rightarrow> rivi \<Rightarrow> error + 'f mittaus" where
  "lue_rivi parse_iso parse_float rivi =
     sitten (hae rivi ''Aika'') (\<lambda>aika_str.
     sitten (fromisoformat parse_iso aika_str) (\<lambda>aika.
     sitten (lue_float parse_float rivi ''Kulutus vaihe 1 Wh'') (\<lambda>kulutus_v1.
     sitten (lue_float parse_float rivi ''Kulutus vaihe 2 Wh'') (\<lambda>kulutus_v2.
     sitten (lue_float parse_float rivi ''Kulutus vaihe 3 Wh'') (\<lambda>kulutus_v3.
     sitten (lue_float parse_float rivi ''Tuotanto vaihe 1 Wh'') (\<lambda>tuotanto_v1.
     sitten (lue_float parse_float rivi ''Tuotanto vaihe 2 Wh'') (\<lambda>tuotanto_v2.
     sitten (lue_float parse_float rivi ''Tuotanto vaihe 3 Wh'') (\<lambda>tuotanto_v3.
       Inr \<lparr>paiva = date_of aika,
            kulutus = (kulutus_v1, kulutus_v2, kulutus_v3),
            tuotanto = (tuotanto_v1, tuotanto_v2, tuotanto_v3)\<rparr>))))))))"

fun lue_rivit ::
  "(string \<Rightarrow> datetime option) \<Rightarrow> (string \<Rightarrow> 'f option) \<Rightarrow> 'f mittaus list \<Rightarrow> rivi list
     \<Rightarrow> error + 'f mittaus list" where
  "lue_rivit parse_iso parse_float mittaukset [] = Inr mittaukset"
| "lue_rivit parse_iso parse_float mittaukset (rivi # rivit) =
     (case lue_rivi parse_iso parse_float rivi of
        Inl e \<Rightarrow> Inl e
      | Inr m \<Rightarrow> lue_rivit parse_iso parse_float (mittaukset @ [m]) rivit)"

definition lue_data ::
  "(string \<Rightarrow> datetime option) \<Rightarrow> (string \<Rightarrow> 'f option) \<Rightarrow> rivi list \<Rightarrow> error + 'f mittaus list" where
  "lue_data parse_iso parse_float rivit = lue_rivit parse_iso parse_float [] rivit"

section \<open>The Aggregator: laske\_paivasummat\<close>

text \<open>
  Float arithmetic is the Python runtime's, not the program's: the aggregator takes the
  addition \<open>fadd\<close> (\<open>+\<close>), the division \<open>fdiv\<close> (\<open>/\<close>) and the two literals
  \<open>nolla\<close> (\<open>0.0\<close>) and \<open>tuhat\<close> (\<open>1000.0\<close>) as parameters.

  The body of \<open>for i in range(3)\<close> on the entry of the day: each of the two lines
  reads and writes index \<open>i\<close> of a list, which raises \<open>IndexError\<close> out of range.
\<close>

definition lisaa_vaihe ::
  "('f \<Rightarrow> 'f \<Rightarrow> 'f) \<Rightarrow> 'f mittaus \<Rightarrow> 'f summat_wh \<Rightarrow> nat \<Rightarrow> error + 'f summat_wh" where
  "lisaa_vaihe fadd mittaus arvot i =
     (if i < length (kulutus_wh arvot) then
        (if i < length (tuotanto_wh arvot) then
           Inr \<lparr>kulutus_wh = (kulutus_wh arvot)
                   [i := fadd (kulutus_wh arvot ! i) (vaihe (kulutus mittaus) i)],
                tuotanto_wh = (tuotanto_wh arvot)
                   [i := fadd (tuotanto_wh arvot ! i) (vaihe (tuotanto mittaus) i)]\<rparr>
         else Inl IndexError)
      else Inl IndexError)"

text \<open>
  One pass of the inner loop on the whole dictionary: \<open>paiva_summat_wh[paiva]\<close> is
  looked up (\<open>KeyError\<close> when absent) and the entry is updated in place.
\<close>

definition paivita_vaihe ::
  "('f \<Rightarrow> 'f \<Rightarrow> 'f) \<Rightarrow> 'f mittaus \<Rightarrow> (date, 'f summat_wh) dict \<Rightarrow> nat
     \<Rightarrow> error + (date, 'f summat_wh) dict" where
  "paivita_vaihe fadd mittaus d i =
     (case map_of d (paiva mittaus) of
        None \<Rightarrow> Inl KeyError
      | Some arvot \<Rightarrow>
          (case lisaa_vaihe fadd mittaus arvot i of
             Inl e \<Rightarrow> Inl e
           | Inr arvot' \<Rightarrow> Inr (dict_set d (paiva mittaus) arvot')))"

fun vaiheet ::
  "('f \<Rightarrow> 'f \<Rightarrow> 'f) \<Rightarrow> 'f mittaus \<Rightarrow> (date, 'f summat_wh) dict \<Rightarrow> nat list
     \<Rightarrow> error + (date, 'f summat_wh) dict" where
  "vaiheet fadd mittaus d [] = Inr d"
| "vaiheet fadd mittaus d (i # is) =
     (case paivita_vaihe fadd mittaus d i of
        Inl e \<Rightarrow> Inl e
      | Inr d' \<Rightarrow> vaiheet fadd mittaus d' is)"

text \<open>The body of \<open>for mittaus in mittaukset\<close>.\<close>

definition kasittele ::
  "('f \<Rightarrow> 'f \<Rightarrow> 'f) \<Rightarrow> 'f \<Rightarrow> (date, 'f summat_wh) dict \<Rightarrow> 'f mittaus
     \<Rightarrow> error + (date, 'f summat_wh) dict" where
  "kasittele fadd nolla d mittaus =
     (let d1 = (if map_of d (paiva mittaus) = None
                then dict_set d (paiva mittaus)
                       \<lparr>kulutus_wh = [nolla, nolla, nolla], tuotanto_wh = [nolla, nolla, nolla]\<rparr>
                else d)
      in vaiheet fadd mittaus d1 [0, 1, 2])"

fun summaa ::
  "('f \<Rightarrow> 'f \<Rightarrow> 'f) \<Rightarrow> 'f \<Rightarrow> (date, 'f summat_wh) dict \<Rightarrow> 'f mittaus list
     \<Rightarrow> error + (date, 'f summat_wh) dict" where
  "summaa fadd nolla d [] = Inr d"
| "summaa fadd nolla d (mittaus # mittaukset) =
     (case kasittele fadd nolla d mittaus of
        Inl e \<Rightarrow> Inl e
      | Inr d' \<Rightarrow> summaa fadd nolla d' mittaukset)"

text \<open>
  The second loop, over \<open>paiva_summat_wh.items()\<close>: every summed value is divided by
  \<open>1000.0\<close> and the day is stored in the new dictionary.
\<close>

definition muunna :: "('f \<Rightarrow> 'f \<Rightarrow> 'f) \<Rightarrow> 'f \<Rightarrow> 'f summat_wh \<Rightarrow> 'f summat_kwh" where
  "muunna fdiv tuhat arvot =
     \<lparr>kulutus_kwh = map (\<lambda>x. fdiv x tuhat) (kulutus_wh arvot),
      tuotanto_kwh = map (\<lambda>x. fdiv x tuhat) (tuotanto_wh arvot)\<rparr>"

fun muunna_kaikki ::
  "('f \<Rightarrow> 'f \<Rightarrow> 'f) \<Rightarrow> 'f \<Rightarrow> (date, 'f summat_kwh) dict \<Rightarrow> (date, 'f summat_wh) dict
     \<Rightarrow> (date, 'f summat_kwh) dict" where
  "muunna_kaikki fdiv tuhat kwh [] = kwh"
| "muunna_kaikki fdiv tuhat kwh ((p, arvot) # d) =
     muunna_kaikki fdiv tuhat (dict_set kwh p (muunna fdiv tuhat arvot)) d"

definition laske_paivasummat ::
  "('f \<Rightarrow> 'f \<Rightarrow> 'f) \<Rightarrow> ('f \<Rightarrow> 'f \<Rightarrow> 'f) \<Rightarrow> 'f \<Rightarrow> 'f \<Rightarrow> 'f mittaus list
     \<Rightarrow> error + (date, 'f summat_kwh) dict" where
  "laske_paivasummat fadd fdiv nolla tuhat mittaukset =
     (case summaa fadd nolla [] mittaukset of
        Inl e \<Rightarrow> Inl e
      | Inr paiva_summat_wh \<Rightarrow> Inr (muunna_kaikki fdiv tuhat [] paiva_summat_wh))"

section \<open>Formatting\<close>

text \<open>
  A Python \<open>float\<close> as the formatter sees it: a finite binary value
  \<open>(-1)\<^sup>s \<cdot> m \<cdot> 2\<^sup>e\<close>, an infinity, or a NaN.  (Every finite double has this form; the
  formatter does not depend on which \<open>m\<close> and \<open>e\<close> represent a value.)
\<close>

datatype pyfloat = PyFinite bool nat int | PyInf bool | PyNaN

definition numero :: "nat \<Rightarrow> char" where
  "numero n = ''0123456789'' ! (n mod 10)"

text \<open>\<open>str(n)\<close> of an integer, as an f-string renders it.\<close>

function str_nat :: "nat \<Rightarrow> string" where
  "str_nat n = (if n < 10 then [numero n] else str_nat (n div 10) @ [numero n])"
  by pat_completeness auto
termination
  by (relation "measure id") auto

declare str_nat.simps [simp del]

definition str_int :: "int \<Rightarrow> string" where
  "str_int i = (if i < 0 then ''-'' @ str_nat (nat (- i)) else str_nat (nat i))"

text \<open>\<open>a / b\<close> rounded to the nearest integer, ties to the even one.\<close>

definition pyorista :: "nat \<Rightarrow> nat \<Rightarrow> nat" where
  "pyorista a b =
     (let q = a div b; r = a mod b
      in if 2 * r < b then q
         else if b < 2 * r then q + 1
         else if even q then q else q + 1)"

text \<open>
  The format \<open>.2f\<close> rounds the exact binary value correctly (ties to even) to a
  whole number of hundredths: \<open>sadasosat m e\<close> is that number for \<open>m \<cdot> 2\<^sup>e\<close>.
\<close>

definition sadasosat :: "nat \<Rightarrow> int \<Rightarrow> nat" where
  "sadasosat m e =
     (if 0 \<le> e then m * 100 * 2 ^ nat e else pyorista (m * 100) (2 ^ nat (- e)))"

text \<open>\<open>f"{arvo:.2f}"\<close>.\<close>

fun muotoile_2f :: "pyfloat \<Rightarrow> string" where
  "muotoile_2f (PyFinite s m e) =
     (let n = sadasosat m e
      in (if s then ''-'' else []) @ str_nat (n div 100) @ ''.'' @
         [numero (n div 10), numero n])"
| "muotoile_2f (PyInf s) = (if s then ''-inf'' else ''inf'')"
| "muotoile_2f PyNaN = ''nan''"

text \<open>\<open>s.replace(a, b)\<close> for one-character \<open>a\<close> and \<open>b\<close>.\<close>

definition replace :: "char \<Rightarrow> char \<Rightarrow> string \<Rightarrow> string" where
  "replace a b s = map (\<lambda>c. if c = a then b else c) s"

definition muotoile_kwh :: "pyfloat \<Rightarrow> string" where
  "muotoile_kwh arvo = (let arvo_str = muotoile_2f arvo in replace (CHR ''.'') (CHR '','') arvo_str)"

definition muotoile_pvm :: "date \<Rightarrow> string" where
  "muotoile_pvm p = str_int (day p) @ ''.'' @ str_int (month p) @ ''.'' @ str_int (year p)"

subsection \<open>The weekday of a date\<close>

text \<open>
  \<open>date.weekday()\<close> as the standard library computes it: the proleptic Gregorian
  ordinal of the date (1 January of year 1 is day 1, a Monday), plus 6, modulo 7.
  A \<open>date\<close> object has \<open>1 \<le> month \<le> 12\<close>, so the table is read in range.
\<close>

definition is_leap :: "int \<Rightarrow> bool" where
  "is_leap y = (y mod 4 = 0 \<and> (y mod 100 \<noteq> 0 \<or> y mod 400 = 0))"

definition days_before_year :: "int \<Rightarrow> int" where
  "days_before_year y = (let y1 = y - 1 in y1 * 365 + y1 div 4 - y1 div 100 + y1 div 400)"

definition DAYS_BEFORE_MONTH :: "int list" where
  "DAYS_BEFORE_MONTH = [- 1, 0, 31, 59, 90, 120, 151, 181, 212, 243, 273, 304, 334]"

definition days_before_month :: "int \<Rightarrow> int \<Rightarrow> int" where
  "days_before_month y m =
     DAYS_BEFORE_MONTH ! nat m + (if 2 < m \<and> is_leap y then 1 else 0)"

definition toordinal :: "date \<Rightarrow> int" where
  "toordinal p = days_before_year (year p) + days_before_month (year p) (month p) + day p"

definition weekday :: "date \<Rightarrow> int" where
  "weekday p = (toordinal p + 6) mod 7"

text \<open>\<open>xs[i]\<close> on a Python list: a negative index counts from the end.\<close>

definition py_index :: "'a list \<Rightarrow> int \<Rightarrow> error + 'a" where
  "py_index xs i =
     (if 0 \<le> i \<and> i < int (length xs) then Inr (xs ! nat i)
      else if i < 0 \<and> - int (length xs) \<le> i then Inr (xs ! nat (int (length xs) + i))
      else Inl IndexError)"

definition nimet :: "string list" where
  "nimet = [''maanantai'', ''tiistai'', ''keskiviikko'', ''torstai'', ''perjantai'',
            ''lauantai'', ''sunnuntai'']"

definition viikonpaivan_nimi :: "date \<Rightarrow> error + string" where
  "viikonpaivan_nimi p = py_index nimet (weekday p)"

section \<open>The Reporter: tulosta\_raportti\<close>

text \<open>
  The format specifications \<open><w\<close> and \<open>>w\<close>: pad with spaces to width \<open>w\<close>, never
  truncate.  A string is a list of code points; the two letters outside ASCII are
  \<open>0xE4\<close> and \<open>0xF6\<close>.
\<close>

definition vasen :: "nat \<Rightarrow> string \<Rightarrow> string" where
  "vasen w s = s @ replicate (w - length s) (CHR '' '')"

definition oikea :: "nat \<Rightarrow> string \<Rightarrow> string" where
  "oikea w s = replicate (w - length s) (CHR '' '') @ s"

text \<open>The output is the list of the strings printed, one per call of \<open>print\<close>.\<close>

definition otsikko :: "string list" where
  "otsikko =
     [''Viikon 42 s'' @ [CHR 0xE4] @ ''hk'' @ [CHR 0xF6] @ ''nkulutus ja tuotanto'' @ [CHR 0x0A],
      vasen 12 (''P'' @ [CHR 0xE4] @ ''iv'' @ [CHR 0xE4]) @ '' '' @ vasen 12 ''Pvm'' @ '' '' @
        oikea 26 ''Kulutus [kWh]'' @ '' '' @ oikea 26 ''Tuotanto [kWh]'',
      vasen 12 [] @ '' '' @ vasen 12 ''(pv.kk.vvvv)'' @
        oikea 8 ''v1'' @ oikea 8 ''v2'' @ oikea 8 ''v3'' @ '' '' @
        oikea 8 ''v1'' @ oikea 8 ''v2'' @ oikea 8 ''v3'',
      replicate 80 (CHR ''-'')]"

text \<open>
  One pass of the loop: the string printed for day \<open>p\<close>, or the exception raised.
  Unpacking a tuple into three names raises \<open>ValueError\<close> unless it has three elements.
\<close>

definition raportti_rivi :: "(date, pyfloat summat_kwh) dict \<Rightarrow> date \<Rightarrow> error + string" where
  "raportti_rivi paiva_summat p =
     sitten (viikonpaivan_nimi p) (\<lambda>paiva_nimi.
       let pvm_str = muotoile_pvm p in
       (case map_of paiva_summat p of
          None \<Rightarrow> Inl KeyError
        | Some arvot \<Rightarrow>
            (case kulutus_kwh arvot of
               [kul_v1, kul_v2, kul_v3] \<Rightarrow>
                 (case tuotanto_kwh arvot of
                    [tuo_v1, tuo_v2, tuo_v3] \<Rightarrow>
                      Inr (vasen 12 paiva_nimi @ '' '' @ vasen 12 pvm_str @
                           oikea 8 (muotoile_kwh kul_v1) @
                           oikea 8 (muotoile_kwh kul_v2) @
                           oikea 8 (muotoile_kwh kul_v3) @
                           oikea 8 (muotoile_kwh tuo_v1) @
                           oikea 8 (muotoile_kwh tuo_v2) @
                           oikea 8 (muotoile_kwh tuo_v3))
                  | _ \<Rightarrow> Inl ValueError)
             | _ \<Rightarrow> Inl ValueError)))"

text \<open>
  The loop over the sorted days.  The result is what has been printed and the exception
  that ended the run, if any: lines printed before an exception stay printed.
\<close>

fun tulosta_rivit ::
  "(date, pyfloat summat_kwh) dict \<Rightarrow> string list \<Rightarrow> date list \<Rightarrow> string list \<times> error option" where
  "tulosta_rivit paiva_summat tuloste [] = (tuloste, None)"
| "tulosta_rivit paiva_summat tuloste (p # ps) =
     (case raportti_rivi paiva_summat p of
        Inl e \<Rightarrow> (tuloste, Some e)
      | Inr r \<Rightarrow> tulosta_rivit paiva_summat (tuloste @ [r]) ps)"

text \<open>Dates compare as the triples (year, month, day); \<open>sorted\<close> is a stable sort.\<close>

definition date_key :: "date \<Rightarrow> int \<times> int \<times> int" where
  "date_key p = (year p, month p, day p)"

definition tulosta_raportti :: "(date, pyfloat summat_kwh) dict \<Rightarrow> string list \<times> error option" where
  "tulosta_raportti paiva_summat =
     tulosta_rivit paiva_summat otsikko (sort_key date_key (dict_keys paiva_summat))"

section \<open>The program: main\<close>

text \<open>
  \<open>main\<close> on the rows of \<open>viikko42.csv\<close>.  An exception of the Loader or the Aggregator
  ends the run before anything is printed.
\<close>

definition main ::
  "(string \<Rightarrow> datetime option) \<Rightarrow> (string \<Rightarrow> pyfloat option) \<Rightarrow>
   (pyfloat \<Rightarrow> pyfloat \<Rightarrow> pyfloat) \<Rightarrow> (pyfloat \<Rightarrow> pyfloat \<Rightarrow> pyfloat) \<Rightarrow> rivi list
     \<Rightarrow> string list \<times> error option" where
  "main parse_iso parse_float fadd fdiv rivit =
     (case lue_data parse_iso parse_float rivit of
        Inl e \<Rightarrow> ([], Some e)
      | Inr mittaukset \<Rightarrow>
          (case laske_paivasummat fadd fdiv (PyFinite False 0 0) (PyFinite False 1000 0) mittaukset of
             Inl e \<Rightarrow> ([], Some e)
           | Inr paiva_summat \<Rightarrow> tulosta_raportti paiva_summat))"

section \<open>Float arithmetic of the Python runtime\<close>

text \<open>
  Python's \<open>float\<close> is the IEEE 754 binary64 format, and \<open>+\<close> and \<open>/\<close> round the exact
  result to the nearest representable value, ties to the even mantissa.  A finite value
  has a mantissa below \<open>2\<^sup>5\<^sup>3\<close> and an exponent from \<open>-1074\<close> to \<open>971\<close>; a rounded
  result of magnitude \<open>2\<^sup>1\<^sup>0\<^sup>2\<^sup>4\<close> or more is an infinity.

  \<open>n.bit_length()\<close> of a natural number.
\<close>

function bit_length :: "nat \<Rightarrow> nat" where
  "bit_length n = (if n = 0 then 0 else Suc (bit_length (n div 2)))"
  by pat_completeness auto
termination
  by (relation "measure id") auto

declare bit_length.simps [simp del]

text \<open>The value \<open>n \<cdot> 2\<^sup>e\<close>, with the sign \<open>s\<close>, rounded to a float.\<close>

definition pyorista_b64 :: "bool \<Rightarrow> nat \<Rightarrow> int \<Rightarrow> pyfloat" where
  "pyorista_b64 s n e =
     (let q = max (int (bit_length n) + e - 53) (- 1074);
          m = (if q \<le> e then n * 2 ^ nat (e - q) else pyorista n (2 ^ nat (q - e)))
      in if 1024 < int (bit_length m) + q then PyInf s else PyFinite s m q)"

text \<open>The value \<open>(a / b) \<cdot> 2\<^sup>e\<close> for positive \<open>a\<close> and \<open>b\<close>, with the sign \<open>s\<close>, rounded to a float.\<close>

definition pyorista_osamaara :: "bool \<Rightarrow> nat \<Rightarrow> nat \<Rightarrow> int \<Rightarrow> pyfloat" where
  "pyorista_osamaara s a b e =
     (let d = int (bit_length a) - int (bit_length b);
          l = (if (if 0 \<le> d then b * 2 ^ nat d \<le> a else b \<le> a * 2 ^ nat (- d)) then d else d - 1);
          q = max (l + e - 52) (- 1074);
          m = (if q \<le> e then pyorista (a * 2 ^ nat (e - q)) b else pyorista a (b * 2 ^ nat (q - e)))
      in if 1024 < int (bit_length m) + q then PyInf s else PyFinite s m q)"

definition etumerkki :: "bool \<Rightarrow> nat \<Rightarrow> int" where
  "etumerkki s m = (if s then - int m else int m)"

text \<open>\<open>x + y\<close> on floats.\<close>

fun py_add :: "pyfloat \<Rightarrow> pyfloat \<Rightarrow> pyfloat" where
  "py_add PyNaN y = PyNaN"
| "py_add x PyNaN = PyNaN"
| "py_add (PyInf s) (PyInf s') = (if s = s' then PyInf s else PyNaN)"
| "py_add (PyInf s) (PyFinite s2 m2 e2) = PyInf s"
| "py_add (PyFinite s1 m1 e1) (PyInf s) = PyInf s"
| "py_add (PyFinite s1 m1 e1) (PyFinite s2 m2 e2) =
     (if m1 = 0 \<and> m2 = 0 then PyFinite (s1 \<and> s2) 0 0
      else if m1 = 0 then pyorista_b64 s2 m2 e2
      else if m2 = 0 then pyorista_b64 s1 m1 e1
      else
        (let e = min e1 e2;
             v = etumerkki s1 (m1 * 2 ^ nat (e1 - e)) + etumerkki s2 (m2 * 2 ^ nat (e2 - e))
         in if v = 0 then PyFinite False 0 0 else pyorista_b64 (v < 0) (nat \<bar>v\<bar>) e))"

text \<open>
  \<open>x / y\<close> on floats.  Python raises \<open>ZeroDivisionError\<close> on a zero divisor; the program
  divides by the literal \<open>1000.0\<close> only, and that case has the value NaN here.
\<close>

fun py_truediv :: "pyfloat \<Rightarrow> pyfloat \<Rightarrow> pyfloat" where
  "py_truediv PyNaN y = PyNaN"
| "py_truediv x PyNaN = PyNaN"
| "py_truediv (PyInf s) (PyInf s') = PyNaN"
| "py_truediv (PyInf s) (PyFinite s2 m2 e2) = (if m2 = 0 then PyNaN else PyInf (s \<noteq> s2))"
| "py_truediv (PyFinite s1 m1 e1) (PyInf s) = PyFinite (s1 \<noteq> s) 0 0"
| "py_truediv (PyFinite s1 m1 e1) (PyFinite s2 m2 e2) =
     (if m2 = 0 then PyNaN
      else if m1 = 0 then PyFinite (s1 \<noteq> s2) 0 0
      else pyorista_osamaara (s1 \<noteq> s2) m1 m2 (e1 - e2))"

section \<open>Notions used in the statements\<close>

subsection \<open>Loader\<close>

text \<open>
  The three ways a row can be faulty: a required field is missing (no such column, or
  the row is too short to have the cell), an energy field is present but not a number,
  the timestamp is present but malformed.
\<close>

definition energiakentat :: "string list" where
  "energiakentat =
     [''Kulutus vaihe 1 Wh'', ''Kulutus vaihe 2 Wh'', ''Kulutus vaihe 3 Wh'',
      ''Tuotanto vaihe 1 Wh'', ''Tuotanto vaihe 2 Wh'', ''Tuotanto vaihe 3 Wh'']"

definition puuttuva_kentta :: "rivi \<Rightarrow> bool" where
  "puuttuva_kentta r = list_ex (\<lambda>k. r k = None \<or> r k = Some None) (''Aika'' # energiakentat)"

definition epanumeerinen_kentta :: "(string \<Rightarrow> 'f option) \<Rightarrow> rivi \<Rightarrow> bool" where
  "epanumeerinen_kentta parse_float r =
     list_ex (\<lambda>k. case r k of Some (Some s) \<Rightarrow> parse_float s = None | _ \<Rightarrow> False) energiakentat"

definition virheellinen_aika :: "(string \<Rightarrow> datetime option) \<Rightarrow> rivi \<Rightarrow> bool" where
  "virheellinen_aika parse_iso r =
     (case r ''Aika'' of Some (Some s) \<Rightarrow> parse_iso s = None | _ \<Rightarrow> False)"

definition viallinen_rivi ::
  "(string \<Rightarrow> datetime option) \<Rightarrow> (string \<Rightarrow> 'f option) \<Rightarrow> rivi \<Rightarrow> bool" where
  "viallinen_rivi parse_iso parse_float r =
     (puuttuva_kentta r \<or> epanumeerinen_kentta parse_float r \<or> virheellinen_aika parse_iso r)"

text \<open>
  The parsed content of the cell \<open>k\<close> of a row, and the relation between a row and the
  Measurement made from it: the day is the date of the parsed timestamp, and the six
  values are the six energy cells parsed as floats, in the order of the columns.
\<close>

definition kentta :: "(string \<Rightarrow> 'a option) \<Rightarrow> rivi \<Rightarrow> string \<Rightarrow> 'a option" where
  "kentta jasennin r k = (case r k of Some (Some s) \<Rightarrow> jasennin s | _ \<Rightarrow> None)"

definition rivi_vastaa ::
  "(string \<Rightarrow> datetime option) \<Rightarrow> (string \<Rightarrow> 'f option) \<Rightarrow> rivi \<Rightarrow> 'f mittaus \<Rightarrow> bool" where
  "rivi_vastaa parse_iso parse_float r m =
     (map_option date_of (kentta parse_iso r ''Aika'') = Some (paiva m) \<and>
      map (kentta parse_float r) energiakentat =
        [Some (vaihe (kulutus m) 0), Some (vaihe (kulutus m) 1), Some (vaihe (kulutus m) 2),
         Some (vaihe (tuotanto m) 0), Some (vaihe (tuotanto m) 1), Some (vaihe (tuotanto m) 2)])"

text \<open>
  The exception a cell raises when it is read: \<open>KeyError\<close> when the row has no such
  key, \<open>TypeError\<close> when the cell is \<open>None\<close>, \<open>ValueError\<close> when the parser
  rejects its text.  The exception of a row is that of its first such cell, the timestamp
  first and then the energy cells in the order of the columns.
\<close>

definition kentan_virhe :: "(string \<Rightarrow> 'a option) \<Rightarrow> rivi \<Rightarrow> string \<Rightarrow> error option" where
  "kentan_virhe jasennin r k =
     (case r k of
        None \<Rightarrow> Some KeyError
      | Some None \<Rightarrow> Some TypeError
      | Some (Some s) \<Rightarrow> (case jasennin s of None \<Rightarrow> Some ValueError | Some x \<Rightarrow> None))"

fun ensimmainen :: "'a option list \<Rightarrow> 'a option" where
  "ensimmainen [] = None"
| "ensimmainen (None # xs) = ensimmainen xs"
| "ensimmainen (Some x # xs) = Some x"

definition rivin_virhe ::
  "(string \<Rightarrow> datetime option) \<Rightarrow> (string \<Rightarrow> 'f option) \<Rightarrow> rivi \<Rightarrow> error option" where
  "rivin_virhe parse_iso parse_float r =
     ensimmainen (kentan_virhe parse_iso r ''Aika'' # map (kentan_virhe parse_float r) energiakentat)"

subsection \<open>Aggregator\<close>

text \<open>
  The sum of phase \<open>i\<close> of the quantity \<open>suure\<close> (consumption or production) over the
  Measurements of day \<open>p\<close>: the raw values added one by one to \<open>0.0\<close>, in the order
  of the rows.
\<close>

definition paivan_summa ::
  "('f \<Rightarrow> 'f \<Rightarrow> 'f) \<Rightarrow> 'f \<Rightarrow> 'f mittaus list \<Rightarrow> date \<Rightarrow> ('f mittaus \<Rightarrow> 'f \<times> 'f \<times> 'f) \<Rightarrow> nat \<Rightarrow> 'f" where
  "paivan_summa fadd nolla mittaukset p suure i =
     foldl fadd nolla (map (\<lambda>m. vaihe (suure m) i) (filter (\<lambda>m. paiva m = p) mittaukset))"

text \<open>
  The invariant of the first loop (distinct days, two lists of three sums per day), the
  entry a new day starts with, and the entry after one Measurement has been added.
\<close>

definition hyva :: "(date, 'f summat_wh) dict \<Rightarrow> bool" where
  "hyva d = (distinct (map fst d) \<and>
     (\<forall>p arvot. map_of d p = Some arvot \<longrightarrow>
        length (kulutus_wh arvot) = 3 \<and> length (tuotanto_wh arvot) = 3))"

definition alku :: "'f \<Rightarrow> 'f summat_wh" where
  "alku nolla = \<lparr>kulutus_wh = [nolla, nolla, nolla], tuotanto_wh = [nolla, nolla, nolla]\<rparr>"

definition lisatty :: "('f \<Rightarrow> 'f \<Rightarrow> 'f) \<Rightarrow> 'f summat_wh \<Rightarrow> 'f mittaus \<Rightarrow> 'f summat_wh" where
  "lisatty fadd arvot mittaus =
     \<lparr>kulutus_wh = map (\<lambda>i. fadd (kulutus_wh arvot ! i) (vaihe (kulutus mittaus) i)) [0, 1, 2],
      tuotanto_wh = map (\<lambda>i. fadd (tuotanto_wh arvot ! i) (vaihe (tuotanto mittaus) i)) [0, 1, 2]\<rparr>"

text \<open>The totals of a day are well formed when both tuples have three elements.\<close>

definition kolme_vaihetta :: "'f summat_kwh \<Rightarrow> bool" where
  "kolme_vaihetta arvot = (length (kulutus_kwh arvot) = 3 \<and> length (tuotanto_kwh arvot) = 3)"

subsection \<open>Formatter\<close>

text \<open>
  A string shows a number with exactly two decimal places and a comma as the decimal
  separator: an optional minus sign, one or more digits, a comma, two digits.
\<close>

definition on_numero :: "char \<Rightarrow> bool" where
  "on_numero c = (c \<in> set ''0123456789'')"

definition kaksi_desimaalia :: "string \<Rightarrow> bool" where
  "kaksi_desimaalia s =
     (case rev (if s \<noteq> [] \<and> hd s = CHR ''-'' then tl s else s) of
        d2 # d1 # c # ds \<Rightarrow>
          on_numero d2 \<and> on_numero d1 \<and> c = CHR '','' \<and> ds \<noteq> [] \<and> list_all on_numero ds
      | _ \<Rightarrow> False)"


subsection \<open>Example data\<close>

text \<open>
  A timestamp parser and a float parser that accept the strings of the examples, a row
  with the timestamp \<open>2024-10-14T00:15:00\<close> and the same text in all six energy cells,
  and a mapping of two days, the later day inserted first.
\<close>

definition esim_iso :: "string \<Rightarrow> datetime option" where
  "esim_iso s =
     (if s = ''2024-10-14T00:15:00''
      then Some \<lparr>dt_year = 2024, dt_month = 10, dt_day = 14, dt_hour = 0, dt_minute = 15,
                 dt_second = 0, dt_microsecond = 0\<rparr>
      else None)"

definition esim_float :: "string \<Rightarrow> pyfloat option" where
  "esim_float s =
     (if s = ''500'' then Some (PyFinite False 500 0)
      else if s = ''1500'' then Some (PyFinite False 1500 0)
      else None)"

definition esim_rivi :: "string \<Rightarrow> rivi" where
  "esim_rivi v =
     map_of ((''Aika'', Some ''2024-10-14T00:15:00'') # map (\<lambda>k. (k, Some v)) energiakentat)"

definition esim_summat :: "(date, pyfloat summat_kwh) dict" where
  "esim_summat =
     [(\<lparr>year = 2024, month = 10, day = 15\<rparr>,
       \<lparr>kulutus_kwh = [PyFinite False 3 (- 1), PyFinite False 0 0, PyFinite False 1 0],
        tuotanto_kwh = [PyFinite False 0 0, PyFinite False 0 0, PyFinite False 0 0]\<rparr>),
      (\<lparr>year = 2024, month = 10, day = 14\<rparr>,
       \<lparr>kulutus_kwh = [PyFinite False 2 0, PyFinite False 0 0, PyFinite False 1 0],
        tuotanto_kwh = [PyFinite False 0 0, PyFinite False 0 0, PyFinite False 0 0]\<rparr>)]"





section \<open>Properties of the Aggregator\<close>

lemma map_of_dict_set: "map_of (dict_set d k v) = (map_of d)(k \<mapsto> v)"
  by (induction d k v rule: dict_set.induct) auto

lemma keys_dict_set:
  "map fst (dict_set d k v) = (if k \<in> set (map fst d) then map fst d else map fst d @ [k])"
  by (induction d k v rule: dict_set.induct) auto

lemma dict_set_new: "k \<notin> set (map fst d) \<Longrightarrow> dict_set d k v = d @ [(k, v)]"
  by (induction d k v rule: dict_set.induct) auto

lemma dict_set_twice: "dict_set (dict_set d k v) k v' = dict_set d k v'"
  by (induction d k v rule: dict_set.induct) auto

lemma length3_eq: "length xs = 3 \<Longrightarrow> \<exists>a b c. xs = [a, b, c]"
  by (cases xs; cases "tl xs"; cases "tl (tl xs)") auto

text \<open>On an entry with two lists of three, the inner loop raises nothing.\<close>

lemma vaiheet_ok:
  assumes "map_of d (paiva m) = Some arvot"
    and "length (kulutus_wh arvot) = 3" and "length (tuotanto_wh arvot) = 3"
  shows "vaiheet fadd m d [0, 1, 2] = Inr (dict_set d (paiva m) (lisatty fadd arvot m))"
proof -
  obtain a b c where k: "kulutus_wh arvot = [a, b, c]" using length3_eq assms(2) by blast
  obtain a' b' c' where t: "tuotanto_wh arvot = [a', b', c']" using length3_eq assms(3) by blast
  show ?thesis using assms(1)
    by (simp add: paivita_vaihe_def lisaa_vaihe_def k t map_of_dict_set lisatty_def dict_set_twice)
qed

lemma kasittele_ok:
  assumes "hyva d"
  shows "kasittele fadd nolla d m =
     Inr (dict_set d (paiva m)
            (lisatty fadd (case map_of d (paiva m) of None \<Rightarrow> alku nolla | Some arvot \<Rightarrow> arvot) m))"
proof (cases "map_of d (paiva m)")
  case None
  have "map_of (dict_set d (paiva m) (alku nolla)) (paiva m) = Some (alku nolla)"
    by (simp add: map_of_dict_set)
  then have "vaiheet fadd m (dict_set d (paiva m) (alku nolla)) [0, 1, 2] =
      Inr (dict_set (dict_set d (paiva m) (alku nolla)) (paiva m) (lisatty fadd (alku nolla) m))"
    by (rule vaiheet_ok) (simp_all add: alku_def)
  with None show ?thesis
    by (simp add: kasittele_def alku_def dict_set_twice)
next
  case (Some arvot)
  with assms have "length (kulutus_wh arvot) = 3" "length (tuotanto_wh arvot) = 3"
    by (auto simp: hyva_def)
  with Some have "vaiheet fadd m d [0, 1, 2] = Inr (dict_set d (paiva m) (lisatty fadd arvot m))"
    by (rule vaiheet_ok)
  with Some show ?thesis by (simp add: kasittele_def)
qed

lemma hyva_dict_set:
  "hyva d \<Longrightarrow> length (kulutus_wh a) = 3 \<Longrightarrow> length (tuotanto_wh a) = 3 \<Longrightarrow> hyva (dict_set d k a)"
  by (auto simp: hyva_def keys_dict_set map_of_dict_set)

lemma hyva_lisatty: "hyva d \<Longrightarrow> hyva (dict_set d k (lisatty fadd a m))"
  by (rule hyva_dict_set) (simp_all add: lisatty_def)

text \<open>
  The first loop, started on any dictionary that satisfies the invariant: it raises
  nothing, and the entry of a day is its old entry (or the fresh one) with the
  Measurements of that day added in order.
\<close>

lemma summaa_ok:
  "hyva d \<Longrightarrow> \<exists>d'. summaa fadd nolla d ms = Inr d' \<and> hyva d' \<and>
     (\<forall>p. map_of d' p =
        (if p \<in> set (map fst d) \<union> paiva ` set ms
         then Some (foldl (lisatty fadd) (case map_of d p of None \<Rightarrow> alku nolla | Some a \<Rightarrow> a)
                      (filter (\<lambda>m. paiva m = p) ms))
         else None))"
proof (induction ms arbitrary: d)
  case Nil
  have *: "\<forall>p. map_of d p =
        (if p \<in> set (map fst d) \<union> paiva ` set []
         then Some (foldl (lisatty fadd) (case map_of d p of None \<Rightarrow> alku nolla | Some a \<Rightarrow> a)
                      (filter (\<lambda>m. paiva m = p) []))
         else None)"
  proof
    fix p
    show "map_of d p =
        (if p \<in> set (map fst d) \<union> paiva ` set []
         then Some (foldl (lisatty fadd) (case map_of d p of None \<Rightarrow> alku nolla | Some a \<Rightarrow> a)
                      (filter (\<lambda>m. paiva m = p) []))
         else None)"
      by (cases "map_of d p") (auto simp: map_of_eq_None_iff dest: map_of_SomeD intro: rev_image_eqI)
  qed
  have s: "summaa fadd nolla d [] = Inr d" by simp
  from s Nil * show ?case by blast
next
  case (Cons m ms)
  let ?a0 = "case map_of d (paiva m) of None \<Rightarrow> alku nolla | Some a \<Rightarrow> a"
  let ?d1 = "dict_set d (paiva m) (lisatty fadd ?a0 m)"
  have k: "kasittele fadd nolla d m = Inr ?d1" using Cons.prems by (rule kasittele_ok)
  have h1: "hyva ?d1" using Cons.prems by (rule hyva_lisatty)
  from Cons.IH[OF h1] obtain d' where
    s: "summaa fadd nolla ?d1 ms = Inr d'" and h: "hyva d'" and
    m: "\<And>p. map_of d' p =
        (if p \<in> set (map fst ?d1) \<union> paiva ` set ms
         then Some (foldl (lisatty fadd) (case map_of ?d1 p of None \<Rightarrow> alku nolla | Some a \<Rightarrow> a)
                      (filter (\<lambda>m. paiva m = p) ms))
         else None)"
    by blast
  have keys: "set (map fst ?d1) = insert (paiva m) (set (map fst d))"
    by (auto simp: keys_dict_set)
  have "map_of d' p =
        (if p \<in> set (map fst d) \<union> paiva ` set (m # ms)
         then Some (foldl (lisatty fadd) (case map_of d p of None \<Rightarrow> alku nolla | Some a \<Rightarrow> a)
                      (filter (\<lambda>m. paiva m = p) (m # ms)))
         else None)" for p
    unfolding m keys by (simp add: map_of_dict_set)
  with s h k show ?case by simp
qed

lemma foldl_lisatty:
  "length (kulutus_wh a) = 3 \<Longrightarrow> length (tuotanto_wh a) = 3 \<Longrightarrow>
   foldl (lisatty fadd) a ms =
     \<lparr>kulutus_wh = map (\<lambda>i. foldl fadd (kulutus_wh a ! i) (map (\<lambda>m. vaihe (kulutus m) i) ms)) [0, 1, 2],
      tuotanto_wh = map (\<lambda>i. foldl fadd (tuotanto_wh a ! i) (map (\<lambda>m. vaihe (tuotanto m) i) ms)) [0, 1, 2]\<rparr>"
proof (induction ms arbitrary: a)
  case Nil
  obtain x y z where k: "kulutus_wh a = [x, y, z]" using length3_eq Nil(1) by blast
  obtain x' y' z' where t: "tuotanto_wh a = [x', y', z']" using length3_eq Nil(2) by blast
  show ?case by (simp add: k t)
next
  case (Cons m ms)
  have "length (kulutus_wh (lisatty fadd a m)) = 3" "length (tuotanto_wh (lisatty fadd a m)) = 3"
    by (simp_all add: lisatty_def)
  from Cons.IH[OF this] show ?case by (simp add: lisatty_def)
qed

text \<open>The second loop stores every day once, so it is a map over the items.\<close>

lemma muunna_kaikki_distinct:
  "distinct (map fst kwh @ map fst d) \<Longrightarrow>
   muunna_kaikki fdiv tuhat kwh d = kwh @ map (\<lambda>(p, a). (p, muunna fdiv tuhat a)) d"
proof (induction d arbitrary: kwh)
  case Nil
  then show ?case by simp
next
  case (Cons x d)
  obtain p a where x: "x = (p, a)" by (cases x)
  from Cons.prems have "p \<notin> set (map fst kwh)" by (auto simp: x)
  then have ds: "dict_set kwh p (muunna fdiv tuhat a) = kwh @ [(p, muunna fdiv tuhat a)]"
    by (rule dict_set_new)
  from Cons.prems have "distinct (map fst (kwh @ [(p, muunna fdiv tuhat a)]) @ map fst d)"
    by (auto simp: x)
  from Cons.IH[OF this] show ?case by (simp add: x ds)
qed

lemma laske_paivasummat_summaa:
  "\<exists>d'. hyva d' \<and>
     laske_paivasummat fadd fdiv nolla tuhat ms = Inr (map (\<lambda>(p, a). (p, muunna fdiv tuhat a)) d') \<and>
     (\<forall>p. map_of d' p =
        (if p \<in> paiva ` set ms
         then Some \<lparr>kulutus_wh = map (\<lambda>i. paivan_summa fadd nolla ms p kulutus i) [0, 1, 2],
                    tuotanto_wh = map (\<lambda>i. paivan_summa fadd nolla ms p tuotanto i) [0, 1, 2]\<rparr>
         else None))"
proof -
  have "hyva ([] :: (date, 'a summat_wh) dict)" by (simp add: hyva_def)
  from summaa_ok[OF this, of fadd nolla ms] obtain d' where
    s: "summaa fadd nolla [] ms = Inr d'" and h: "hyva d'" and
    m: "\<And>p. map_of d' p =
        (if p \<in> paiva ` set ms
         then Some (foldl (lisatty fadd) (alku nolla) (filter (\<lambda>m. paiva m = p) ms))
         else None)"
    by auto
  have f: "foldl (lisatty fadd) (alku nolla) (filter (\<lambda>m. paiva m = p) ms) =
       \<lparr>kulutus_wh = map (\<lambda>i. paivan_summa fadd nolla ms p kulutus i) [0, 1, 2],
        tuotanto_wh = map (\<lambda>i. paivan_summa fadd nolla ms p tuotanto i) [0, 1, 2]\<rparr>" for p
    by (subst foldl_lisatty) (simp_all add: alku_def paivan_summa_def)
  from h have "distinct (map fst [] @ map fst d')" by (simp add: hyva_def)
  then have "muunna_kaikki fdiv tuhat [] d' = map (\<lambda>(p, a). (p, muunna fdiv tuhat a)) d'"
    by (simp add: muunna_kaikki_distinct)
  with s have l: "laske_paivasummat fadd fdiv nolla tuhat ms =
      Inr (map (\<lambda>(p, a). (p, muunna fdiv tuhat a)) d')"
    by (simp add: laske_paivasummat_def)
  have "\<forall>p. map_of d' p =
        (if p \<in> paiva ` set ms
         then Some \<lparr>kulutus_wh = map (\<lambda>i. paivan_summa fadd nolla ms p kulutus i) [0, 1, 2],
                    tuotanto_wh = map (\<lambda>i. paivan_summa fadd nolla ms p tuotanto i) [0, 1, 2]\<rparr>
         else None)"
    unfolding m f by simp
  with h l show ?thesis by blast
qed

text \<open>The mapping the Aggregator returns, day by day.\<close>

lemma laske_paivasummat_kuvaus:
  "\<exists>d. laske_paivasummat fadd fdiv nolla tuhat ms = Inr d \<and>
     (\<forall>p. map_of d p =
        (if p \<in> paiva ` set ms
         then Some
           \<lparr>kulutus_kwh = [fdiv (paivan_summa fadd nolla ms p kulutus 0) tuhat,
                           fdiv (paivan_summa fadd nolla ms p kulutus 1) tuhat,
                           fdiv (paivan_summa fadd nolla ms p kulutus 2) tuhat],
            tuotanto_kwh = [fdiv (paivan_summa fadd nolla ms p tuotanto 0) tuhat,
                            fdiv (paivan_summa fadd nolla ms p tuotanto 1) tuhat,
                            fdiv (paivan_summa fadd nolla ms p tuotanto 2) tuhat]\<rparr>
         else None))"
proof -
  from laske_paivasummat_summaa[of fadd fdiv nolla tuhat ms] obtain d' where
    l: "laske_paivasummat fadd fdiv nolla tuhat ms = Inr (map (\<lambda>(p, a). (p, muunna fdiv tuhat a)) d')" and
    m: "\<And>p. map_of d' p =
        (if p \<in> paiva ` set ms
         then Some \<lparr>kulutus_wh = map (\<lambda>i. paivan_summa fadd nolla ms p kulutus i) [0, 1, 2],
                    tuotanto_wh = map (\<lambda>i. paivan_summa fadd nolla ms p tuotanto i) [0, 1, 2]\<rparr>
         else None)"
    by blast
  have "map_of (map (\<lambda>(p, a). (p, muunna fdiv tuhat a)) d') p =
      map_option (muunna fdiv tuhat) (map_of d' p)" for p
    by (simp add: map_of_map)
  with l m show ?thesis by (simp add: muunna_def)
qed

text \<open>
  Claim C1.  For every list of Measurements the Aggregator returns a mapping (it raises
  nothing) in which a day has totals exactly when some Measurement carries it, and each of
  the three consumption totals and three production totals of a day is the sum of the
  raw watt-hour values of that phase over the Measurements of the day, divided by 1000
  once, after the summation.
\<close>

theorem laske_paivasummat_summat:
  "\<exists>d. laske_paivasummat fadd fdiv nolla tuhat ms = Inr d \<and>
     (\<forall>p. map_of d p =
        (if p \<in> paiva ` set ms
         then Some
           \<lparr>kulutus_kwh = [fdiv (paivan_summa fadd nolla ms p kulutus 0) tuhat,
                           fdiv (paivan_summa fadd nolla ms p kulutus 1) tuhat,
                           fdiv (paivan_summa fadd nolla ms p kulutus 2) tuhat],
            tuotanto_kwh = [fdiv (paivan_summa fadd nolla ms p tuotanto 0) tuhat,
                            fdiv (paivan_summa fadd nolla ms p tuotanto 1) tuhat,
                            fdiv (paivan_summa fadd nolla ms p tuotanto 2) tuhat]\<rparr>
         else None))"
  by (rule laske_paivasummat_kuvaus)

text \<open>
  Claim C9.  The keys of the mapping the Aggregator returns are exactly the days that
  occur in the input, each once, and the record of every key holds a tuple of three
  consumption values and a tuple of three production values.
\<close>

theorem laske_paivasummat_avaimet:
  "\<exists>d. laske_paivasummat fadd fdiv nolla tuhat ms = Inr d \<and>
     set (dict_keys d) = paiva ` set ms \<and> distinct (dict_keys d) \<and>
     list_all (\<lambda>(p, arvot). kolme_vaihetta arvot) d"
proof -
  from laske_paivasummat_summaa[of fadd fdiv nolla tuhat ms] obtain d' where
    h: "hyva d'" and
    l: "laske_paivasummat fadd fdiv nolla tuhat ms = Inr (map (\<lambda>(p, a). (p, muunna fdiv tuhat a)) d')" and
    m: "\<And>p. map_of d' p =
        (if p \<in> paiva ` set ms
         then Some \<lparr>kulutus_wh = map (\<lambda>i. paivan_summa fadd nolla ms p kulutus i) [0, 1, 2],
                    tuotanto_wh = map (\<lambda>i. paivan_summa fadd nolla ms p tuotanto i) [0, 1, 2]\<rparr>
         else None)"
    by blast
  let ?d = "map (\<lambda>(p, a). (p, muunna fdiv tuhat a)) d'"
  have keys: "dict_keys ?d = map fst d'"
    by (simp add: dict_keys_def split_def comp_def)
  have "dom (map_of d') = paiva ` set ms"
    by (auto simp: dom_def m)
  then have k: "set (dict_keys ?d) = paiva ` set ms"
    by (simp add: keys dom_map_of_conv_image_fst)
  from h have dist: "distinct (dict_keys ?d)"
    by (simp add: keys hyva_def)
  have "kolme_vaihetta (muunna fdiv tuhat a)" if "(p, a) \<in> set d'" for p a
  proof -
    from that h have "map_of d' p = Some a" by (simp add: hyva_def)
    with h show ?thesis by (simp add: hyva_def kolme_vaihetta_def muunna_def)
  qed
  then have "list_all (\<lambda>(p, arvot). kolme_vaihetta arvot) ?d"
    by (auto simp: list_all_iff)
  with l k dist show ?thesis by blast
qed

subsection \<open>The order of the rows\<close>








section \<open>Properties of the Loader\<close>

lemma sitten_Inr_iff: "sitten r f = Inr y \<longleftrightarrow> (\<exists>x. r = Inr x \<and> f x = Inr y)"
  by (cases r) (simp_all add: sitten_def)

lemma hae_Inr_iff: "hae r k = Inr v \<longleftrightarrow> r k = Some v"
  by (simp add: hae_def split: option.splits)

lemma py_float_Inr_iff: "py_float parse_float v = Inr x \<longleftrightarrow> (\<exists>s. v = Some s \<and> parse_float s = Some x)"
  by (simp add: py_float_def split: option.splits)

lemma fromisoformat_Inr_iff:
  "fromisoformat parse_iso v = Inr x \<longleftrightarrow> (\<exists>s. v = Some s \<and> parse_iso s = Some x)"
  by (simp add: fromisoformat_def split: option.splits)

lemma kentta_Some_iff: "kentta jasennin r k = Some x \<longleftrightarrow> (\<exists>s. r k = Some (Some s) \<and> jasennin s = Some x)"
  by (simp add: kentta_def split: option.splits)

lemma lue_float_Inr_iff: "lue_float parse_float r k = Inr x \<longleftrightarrow> kentta parse_float r k = Some x"
  by (auto simp: lue_float_def sitten_Inr_iff hae_Inr_iff py_float_Inr_iff kentta_Some_iff)

lemma aika_Inr_iff:
  "sitten (hae r ''Aika'') (\<lambda>aika_str. sitten (fromisoformat parse_iso aika_str) f) = Inr y \<longleftrightarrow>
     (\<exists>aika. kentta parse_iso r ''Aika'' = Some aika \<and> f aika = Inr y)"
  by (auto simp: sitten_Inr_iff hae_Inr_iff fromisoformat_Inr_iff kentta_Some_iff)

text \<open>A row yields a Measurement exactly when all seven cells parse.\<close>

lemma lue_rivi_Inr_iff:
  "lue_rivi parse_iso parse_float r = Inr m \<longleftrightarrow>
     (\<exists>aika k1 k2 k3 t1 t2 t3.
        kentta parse_iso r ''Aika'' = Some aika \<and>
        kentta parse_float r ''Kulutus vaihe 1 Wh'' = Some k1 \<and>
        kentta parse_float r ''Kulutus vaihe 2 Wh'' = Some k2 \<and>
        kentta parse_float r ''Kulutus vaihe 3 Wh'' = Some k3 \<and>
        kentta parse_float r ''Tuotanto vaihe 1 Wh'' = Some t1 \<and>
        kentta parse_float r ''Tuotanto vaihe 2 Wh'' = Some t2 \<and>
        kentta parse_float r ''Tuotanto vaihe 3 Wh'' = Some t3 \<and>
        m = \<lparr>paiva = date_of aika, kulutus = (k1, k2, k3), tuotanto = (t1, t2, t3)\<rparr>)"
  unfolding lue_rivi_def
  by (subst aika_Inr_iff) (auto simp: sitten_Inr_iff lue_float_Inr_iff)

lemma kentta_None_iff:
  "kentta jasennin r k = None \<longleftrightarrow>
     ((r k = None \<or> r k = Some None) \<or>
      (case r k of Some (Some s) \<Rightarrow> jasennin s = None | _ \<Rightarrow> False))"
  by (simp add: kentta_def split: option.splits)

lemma viallinen_rivi_iff:
  "viallinen_rivi parse_iso parse_float r \<longleftrightarrow>
     (kentta parse_iso r ''Aika'' = None \<or> (\<exists>k\<in>set energiakentat. kentta parse_float r k = None))"
  unfolding viallinen_rivi_def puuttuva_kentta_def epanumeerinen_kentta_def virheellinen_aika_def
    list_ex_iff kentta_None_iff
  by (simp only: list.set bex_simps) blast

lemma lue_rivi_cases:
  "(viallinen_rivi parse_iso parse_float r \<and> (\<exists>e. lue_rivi parse_iso parse_float r = Inl e)) \<or>
   (\<not> viallinen_rivi parse_iso parse_float r \<and>
      (\<exists>m. lue_rivi parse_iso parse_float r = Inr m \<and> rivi_vastaa parse_iso parse_float r m))"
proof (cases "lue_rivi parse_iso parse_float r")
  case (Inl e)
  have "viallinen_rivi parse_iso parse_float r"
  proof (rule ccontr)
    assume "\<not> viallinen_rivi parse_iso parse_float r"
    then have "\<exists>m. lue_rivi parse_iso parse_float r = Inr m"
      unfolding viallinen_rivi_iff lue_rivi_Inr_iff
      by (auto simp: energiakentat_def)
    with Inl show False by simp
  qed
  with Inl show ?thesis by simp
next
  case (Inr m)
  then have "\<not> viallinen_rivi parse_iso parse_float r \<and> rivi_vastaa parse_iso parse_float r m"
    unfolding viallinen_rivi_iff lue_rivi_Inr_iff rivi_vastaa_def
    by (auto simp: energiakentat_def)
  with Inr show ?thesis by simp
qed

lemma lue_rivit_ok:
  "\<forall>r\<in>set rivit. \<not> viallinen_rivi parse_iso parse_float r \<Longrightarrow>
   \<exists>ms. lue_rivit parse_iso parse_float mittaukset rivit = Inr (mittaukset @ ms) \<and>
        list_all2 (rivi_vastaa parse_iso parse_float) rivit ms"
proof (induction rivit arbitrary: mittaukset)
  case Nil
  then show ?case by simp
next
  case (Cons r rivit)
  from Cons.prems lue_rivi_cases[of parse_iso parse_float r] obtain m where
    m: "lue_rivi parse_iso parse_float r = Inr m" "rivi_vastaa parse_iso parse_float r m"
    by auto
  from Cons.prems have "\<forall>r\<in>set rivit. \<not> viallinen_rivi parse_iso parse_float r" by simp
  from Cons.IH[OF this, of "mittaukset @ [m]"] obtain ms where
    "lue_rivit parse_iso parse_float (mittaukset @ [m]) rivit = Inr ((mittaukset @ [m]) @ ms)"
    "list_all2 (rivi_vastaa parse_iso parse_float) rivit ms"
    by blast
  with m have "lue_rivit parse_iso parse_float mittaukset (r # rivit) = Inr (mittaukset @ (m # ms)) \<and>
      list_all2 (rivi_vastaa parse_iso parse_float) (r # rivit) (m # ms)"
    by simp
  then show ?case by blast
qed

lemma sitten_Inl: "sitten (Inl e) f = Inl e"
  by (simp add: sitten_def)

lemma sitten_Inr: "sitten (Inr x) f = f x"
  by (simp add: sitten_def)

lemma lue_float_virhe: "kentan_virhe parse_float r k = Some e \<Longrightarrow> lue_float parse_float r k = Inl e"
  by (auto simp: kentan_virhe_def lue_float_def hae_def py_float_def sitten_def
      split: option.splits)

lemma lue_float_arvo:
  "kentan_virhe parse_float r k = None \<Longrightarrow> \<exists>x. lue_float parse_float r k = Inr x"
  by (auto simp: kentan_virhe_def lue_float_def hae_def py_float_def sitten_def
      split: option.splits)

lemma aika_virhe:
  "kentan_virhe parse_iso r ''Aika'' = Some e \<Longrightarrow>
   sitten (hae r ''Aika'') (\<lambda>aika_str. sitten (fromisoformat parse_iso aika_str) f) = Inl e"
  by (auto simp: kentan_virhe_def hae_def fromisoformat_def sitten_def split: option.splits)

lemma aika_arvo:
  "kentan_virhe parse_iso r ''Aika'' = None \<Longrightarrow>
   \<exists>aika. sitten (hae r ''Aika'') (\<lambda>aika_str. sitten (fromisoformat parse_iso aika_str) f) = f aika"
  by (auto simp: kentan_virhe_def hae_def fromisoformat_def sitten_def split: option.splits)

lemma ensimmainen_Cons:
  "ensimmainen (x # xs) = (case x of None \<Rightarrow> ensimmainen xs | Some e \<Rightarrow> Some e)"
  by (cases x) simp_all

text \<open>A row raises the exception of its first faulty cell.\<close>

lemma lue_rivi_virhe:
  assumes "rivin_virhe parse_iso parse_float r = Some e"
  shows "lue_rivi parse_iso parse_float r = Inl e"
proof -
  let ?v = "\<lambda>k. kentan_virhe parse_float r k"
  let ?l = "\<lambda>k. lue_float parse_float r k"
  note defs = rivin_virhe_def energiakentat_def ensimmainen_Cons
  show ?thesis
  proof (cases "kentan_virhe parse_iso r ''Aika''")
    case (Some e0)
    with assms have "e0 = e" by (simp add: defs)
    with Some show ?thesis unfolding lue_rivi_def by (simp add: aika_virhe)
  next
    case a: None
    have rest: "sitten (hae r ''Aika'') (\<lambda>aika_str. sitten (fromisoformat parse_iso aika_str) f) = Inl e"
      if "\<And>aika. f aika = Inl e" for f
      using aika_arvo[OF a, of f] that by auto
    show ?thesis
    proof (cases "?v ''Kulutus vaihe 1 Wh''")
      case (Some e1)
      with assms a have "e1 = e" by (simp add: defs)
      with Some show ?thesis unfolding lue_rivi_def
        by (intro rest) (simp add: lue_float_virhe sitten_Inl)
    next
      case k1: None
      from lue_float_arvo[OF k1] obtain x1 where x1: "?l ''Kulutus vaihe 1 Wh'' = Inr x1" by blast
      show ?thesis
      proof (cases "?v ''Kulutus vaihe 2 Wh''")
        case (Some e2)
        with assms a k1 have "e2 = e" by (simp add: defs)
        with Some show ?thesis unfolding lue_rivi_def
          by (intro rest) (simp add: x1 lue_float_virhe sitten_Inl sitten_Inr)
      next
        case k2: None
        from lue_float_arvo[OF k2] obtain x2 where x2: "?l ''Kulutus vaihe 2 Wh'' = Inr x2" by blast
        show ?thesis
        proof (cases "?v ''Kulutus vaihe 3 Wh''")
          case (Some e3)
          with assms a k1 k2 have "e3 = e" by (simp add: defs)
          with Some show ?thesis unfolding lue_rivi_def
            by (intro rest) (simp add: x1 x2 lue_float_virhe sitten_Inl sitten_Inr)
        next
          case k3: None
          from lue_float_arvo[OF k3] obtain x3 where x3: "?l ''Kulutus vaihe 3 Wh'' = Inr x3" by blast
          show ?thesis
          proof (cases "?v ''Tuotanto vaihe 1 Wh''")
            case (Some e4)
            with assms a k1 k2 k3 have "e4 = e" by (simp add: defs)
            with Some show ?thesis unfolding lue_rivi_def
              by (intro rest) (simp add: x1 x2 x3 lue_float_virhe sitten_Inl sitten_Inr)
          next
            case t1: None
            from lue_float_arvo[OF t1] obtain y1 where y1: "?l ''Tuotanto vaihe 1 Wh'' = Inr y1" by blast
            show ?thesis
            proof (cases "?v ''Tuotanto vaihe 2 Wh''")
              case (Some e5)
              with assms a k1 k2 k3 t1 have "e5 = e" by (simp add: defs)
              with Some show ?thesis unfolding lue_rivi_def
                by (intro rest) (simp add: x1 x2 x3 y1 lue_float_virhe sitten_Inl sitten_Inr)
            next
              case t2: None
              from lue_float_arvo[OF t2] obtain y2 where y2: "?l ''Tuotanto vaihe 2 Wh'' = Inr y2" by blast
              from assms a k1 k2 k3 t1 t2 have "?v ''Tuotanto vaihe 3 Wh'' = Some e"
                by (simp add: defs split: option.splits)
              then show ?thesis unfolding lue_rivi_def
                by (intro rest) (simp add: x1 x2 x3 y1 y2 lue_float_virhe sitten_Inl sitten_Inr)
            qed
          qed
        qed
      qed
    qed
  qed
qed

lemma kentan_virhe_None_iff: "kentan_virhe jasennin r k = None \<longleftrightarrow> kentta jasennin r k \<noteq> None"
  by (simp add: kentan_virhe_def kentta_def split: option.splits)

lemma ensimmainen_None_iff: "ensimmainen xs = None \<longleftrightarrow> (\<forall>x\<in>set xs. x = None)"
  by (induction xs rule: ensimmainen.induct) simp_all

lemma ensimmainen_Some: "ensimmainen xs = Some e \<Longrightarrow> Some e \<in> set xs"
  by (induction xs rule: ensimmainen.induct) auto

lemma viallinen_rivin_virhe:
  "viallinen_rivi parse_iso parse_float r \<longleftrightarrow> rivin_virhe parse_iso parse_float r \<noteq> None"
  by (auto simp: viallinen_rivi_iff rivin_virhe_def ensimmainen_None_iff kentan_virhe_None_iff)

lemma kentan_virhe_laji:
  "kentan_virhe jasennin r k = Some e \<Longrightarrow> e = KeyError \<or> e = TypeError \<or> e = ValueError"
  by (auto simp: kentan_virhe_def split: option.splits)

lemma rivin_virhe_laji:
  assumes "rivin_virhe parse_iso parse_float r = Some e"
  shows "e = KeyError \<or> e = TypeError \<or> e = ValueError"
proof -
  from assms have "Some e \<in> set (kentan_virhe parse_iso r ''Aika'' #
      map (kentan_virhe parse_float r) energiakentat)"
    unfolding rivin_virhe_def by (rule ensimmainen_Some)
  then have "kentan_virhe parse_iso r ''Aika'' = Some e \<or>
      (\<exists>k. kentan_virhe parse_float r k = Some e)"
    by auto
  then show ?thesis by (auto dest: kentan_virhe_laji)
qed

lemma lue_rivit_ensimmainen_viallinen:
  "List.find (viallinen_rivi parse_iso parse_float) rivit = Some r \<Longrightarrow>
   rivin_virhe parse_iso parse_float r = Some e \<Longrightarrow>
   lue_rivit parse_iso parse_float mittaukset rivit = Inl e"
proof (induction rivit arbitrary: mittaukset)
  case Nil
  then show ?case by simp
next
  case (Cons x rivit)
  show ?case
  proof (cases "viallinen_rivi parse_iso parse_float x")
    case True
    with Cons.prems have "x = r" by simp
    with Cons.prems(2) have "lue_rivi parse_iso parse_float x = Inl e"
      by (simp add: lue_rivi_virhe)
    then show ?thesis by simp
  next
    case False
    with lue_rivi_cases[of parse_iso parse_float x] obtain m where
      "lue_rivi parse_iso parse_float x = Inr m" by auto
    moreover from False Cons.prems(1) have
      "List.find (viallinen_rivi parse_iso parse_float) rivit = Some r" by simp
    ultimately show ?thesis using Cons.IH Cons.prems(2) by simp
  qed
qed

text \<open>
  Claim C3, as amended.  When some row has a missing required field, an energy field that
  \<open>float\<close> rejects or a timestamp that \<open>fromisoformat\<close> rejects, the Loader raises
  the built-in exception of the first faulty cell of the first faulty row, a
  \<open>KeyError\<close>, a \<open>TypeError\<close> or a \<open>ValueError\<close>: it returns no list of
  Measurements, whole or partial, and the run of \<open>main\<close> ends with that same exception
  before anything has been printed.
\<close>

theorem lue_data_virhe:
  assumes "\<exists>r\<in>set rivit. viallinen_rivi parse_iso parse_float r"
  shows "\<exists>r e. List.find (viallinen_rivi parse_iso parse_float) rivit = Some r \<and>
           rivin_virhe parse_iso parse_float r = Some e \<and>
           (e = KeyError \<or> e = TypeError \<or> e = ValueError) \<and>
           lue_data parse_iso parse_float rivit = Inl e \<and>
           main parse_iso parse_float fadd fdiv rivit = ([], Some e)"
proof -
  from assms obtain r where
    r: "List.find (viallinen_rivi parse_iso parse_float) rivit = Some r"
    by (cases "List.find (viallinen_rivi parse_iso parse_float) rivit")
      (auto simp: find_None_iff)
  then have "viallinen_rivi parse_iso parse_float r" by (auto simp: find_Some_iff)
  then obtain e where e: "rivin_virhe parse_iso parse_float r = Some e"
    by (auto simp: viallinen_rivin_virhe)
  from r e have l: "lue_data parse_iso parse_float rivit = Inl e"
    unfolding lue_data_def by (rule lue_rivit_ensimmainen_viallinen)
  then have m: "main parse_iso parse_float fadd fdiv rivit = ([], Some e)"
    by (simp add: main_def)
  from e have "e = KeyError \<or> e = TypeError \<or> e = ValueError" by (rule rivin_virhe_laji)
  with r e l m show ?thesis by blast
qed

theorem lue_data_virhe_witness:
  "viallinen_rivi esim_iso esim_float (esim_rivi ''abc'') \<and>
   lue_data esim_iso esim_float [esim_rivi ''500'', esim_rivi ''abc''] = Inl ValueError \<and>
   main esim_iso esim_float py_add py_truediv [esim_rivi ''500'', esim_rivi ''abc'']
     = ([], Some ValueError)"
proof -
  have v: "viallinen_rivi esim_iso esim_float (esim_rivi ''abc'')"
    by (simp add: viallinen_rivi_def epanumeerinen_kentta_def esim_rivi_def energiakentat_def
        esim_float_def)
  have n: "\<not> viallinen_rivi esim_iso esim_float (esim_rivi ''500'')"
    by (simp add: viallinen_rivi_def puuttuva_kentta_def epanumeerinen_kentta_def
        virheellinen_aika_def esim_rivi_def energiakentat_def esim_float_def esim_iso_def)
  from v n have f: "List.find (viallinen_rivi esim_iso esim_float)
      [esim_rivi ''500'', esim_rivi ''abc''] = Some (esim_rivi ''abc'')"
    by simp
  have e: "rivin_virhe esim_iso esim_float (esim_rivi ''abc'') = Some ValueError"
    by (simp add: rivin_virhe_def kentan_virhe_def esim_rivi_def energiakentat_def
        esim_float_def esim_iso_def)
  from v have "\<exists>r\<in>set [esim_rivi ''500'', esim_rivi ''abc'']. viallinen_rivi esim_iso esim_float r"
    by simp
  from lue_data_virhe[OF this, of py_add py_truediv] f e v show ?thesis by auto
qed

text \<open>
  Claim C3 as stated names a \<open>ParseError\<close>.  The source defines no such class, and the
  exception that reaches the caller is the built-in one of the failing call: a
  \<open>ValueError\<close> for a cell that is not a number, a \<open>TypeError\<close> for a row too short
  to have the cell, a \<open>KeyError\<close> for a column the header does not name.
\<close>

theorem lue_data_virhe_counterexample:
  "lue_data esim_iso esim_float [esim_rivi ''abc''] = Inl ValueError \<and>
   lue_data esim_iso esim_float [\<lambda>k. Some None] = Inl TypeError \<and>
   lue_data esim_iso esim_float [\<lambda>k. None] = Inl KeyError"
  by (simp add: lue_data_def lue_rivi_def sitten_def hae_def fromisoformat_def lue_float_def
      py_float_def esim_rivi_def esim_iso_def esim_float_def energiakentat_def)

text \<open>
  Claim C4.  When no row is faulty, the Loader returns one Measurement per row, in the order
  of the rows: the day of each is the date of the parsed timestamp of its row, and its six
  values are the six energy cells of the row parsed as floats.
\<close>

theorem lue_data_ok:
  assumes "\<forall>r\<in>set rivit. \<not> viallinen_rivi parse_iso parse_float r"
  shows "\<exists>ms. lue_data parse_iso parse_float rivit = Inr ms \<and>
           length ms = length rivit \<and>
           list_all2 (rivi_vastaa parse_iso parse_float) rivit ms"
proof -
  from lue_rivit_ok[OF assms, of "[]"] obtain ms where
    ms: "lue_data parse_iso parse_float rivit = Inr ms"
      "list_all2 (rivi_vastaa parse_iso parse_float) rivit ms"
    by (auto simp: lue_data_def)
  from ms(2) have "length ms = length rivit" by (simp add: list_all2_lengthD)
  with ms show ?thesis by blast
qed

theorem lue_data_ok_witness:
  "\<not> viallinen_rivi esim_iso esim_float (esim_rivi ''500'') \<and>
   \<not> viallinen_rivi esim_iso esim_float (esim_rivi ''1500'') \<and>
   (\<exists>ms. lue_data esim_iso esim_float [esim_rivi ''500'', esim_rivi ''1500''] = Inr ms \<and>
      length ms = length [esim_rivi ''500'', esim_rivi ''1500''] \<and>
      list_all2 (rivi_vastaa esim_iso esim_float) [esim_rivi ''500'', esim_rivi ''1500''] ms)"
proof -
  have 1: "\<not> viallinen_rivi esim_iso esim_float (esim_rivi ''500'')"
    by (simp add: viallinen_rivi_def puuttuva_kentta_def epanumeerinen_kentta_def
        virheellinen_aika_def esim_rivi_def energiakentat_def esim_float_def esim_iso_def)
  have 2: "\<not> viallinen_rivi esim_iso esim_float (esim_rivi ''1500'')"
    by (simp add: viallinen_rivi_def puuttuva_kentta_def epanumeerinen_kentta_def
        virheellinen_aika_def esim_rivi_def energiakentat_def esim_float_def esim_iso_def)
  from 1 2 have "\<forall>r\<in>set [esim_rivi ''500'', esim_rivi ''1500'']. \<not> viallinen_rivi esim_iso esim_float r"
    by simp
  from 1 2 lue_data_ok[OF this] show ?thesis by blast
qed

section \<open>Properties of the formatter\<close>

lemma on_numero_numero: "on_numero (numero n)"
proof -
  have "n mod 10 < length ''0123456789''" by simp
  then have "''0123456789'' ! (n mod 10) \<in> set ''0123456789''" by (rule nth_mem)
  then show ?thesis by (simp only: on_numero_def numero_def)
qed

lemma str_nat_numerot: "list_all on_numero (str_nat n) \<and> str_nat n \<noteq> []"
proof (induction n rule: str_nat.induct)
  case (1 n)
  show ?case
  proof (cases "n < 10")
    case True
    then show ?thesis by (subst (1 2) str_nat.simps) (simp add: on_numero_numero)
  next
    case False
    with 1 show ?thesis by (subst (1 2) str_nat.simps) (simp add: on_numero_numero)
  qed
qed

lemma on_numero_ei_merkki:
  "on_numero c \<Longrightarrow> c \<noteq> CHR ''.'' \<and> c \<noteq> CHR ''-'' \<and> c \<noteq> CHR '',''"
  by (auto simp: on_numero_def)

lemma replace_numerot: "list_all on_numero ds \<Longrightarrow> replace (CHR ''.'') (CHR '','') ds = ds"
  unfolding replace_def
  by (rule map_idI) (auto simp: list_all_iff dest: on_numero_ei_merkki)

lemma muotoile_kwh_PyFinite:
  "muotoile_kwh (PyFinite s m e) =
     (if s then ''-'' else []) @ str_nat (sadasosat m e div 100) @ '','' @
       [numero (sadasosat m e div 10), numero (sadasosat m e)]"
proof -
  let ?n = "sadasosat m e"
  have r: "replace (CHR ''.'') (CHR '','') (xs @ ys) =
      replace (CHR ''.'') (CHR '','') xs @ replace (CHR ''.'') (CHR '','') ys" for xs ys
    by (simp add: replace_def)
  have d: "replace (CHR ''.'') (CHR '','') [numero a, numero b] = [numero a, numero b]" for a b
    by (rule replace_numerot) (simp add: on_numero_numero)
  have n: "replace (CHR ''.'') (CHR '','') (str_nat (?n div 100)) = str_nat (?n div 100)"
    by (rule replace_numerot) (simp add: str_nat_numerot)
  have s: "replace (CHR ''.'') (CHR '','') (if s then ''-'' else []) = (if s then ''-'' else [])"
    by (simp add: replace_def)
  have p: "replace (CHR ''.'') (CHR '','') ''.'' = '',''"
    by (simp add: replace_def)
  show ?thesis
    by (simp only: muotoile_kwh_def muotoile_2f.simps Let_def r d n s p)
qed

lemma kaksi_desimaalia_muoto:
  assumes "list_all on_numero ds" "ds \<noteq> []" "on_numero d1" "on_numero d2"
  shows "kaksi_desimaalia ((if s then ''-'' else []) @ ds @ '','' @ [d1, d2])"
proof -
  from assms(1,2) have h: "on_numero (hd ds)" by (cases ds) simp_all
  then have "hd ds \<noteq> CHR ''-''" by (simp add: on_numero_ei_merkki)
  with assms(2) have
    "(if ((if s then ''-'' else []) @ ds @ '','' @ [d1, d2]) \<noteq> [] \<and>
         hd ((if s then ''-'' else []) @ ds @ '','' @ [d1, d2]) = CHR ''-''
      then tl ((if s then ''-'' else []) @ ds @ '','' @ [d1, d2])
      else (if s then ''-'' else []) @ ds @ '','' @ [d1, d2]) = ds @ '','' @ [d1, d2]"
    by (cases ds) auto
  then show ?thesis
    unfolding kaksi_desimaalia_def using assms by simp
qed

text \<open>
  Claim C7, as amended.  The value formatter renders every finite value with exactly two
  decimal places and a comma as the decimal separator; the value 1.5 renders as
  \<open>1,50\<close> and the value 0 as \<open>0,00\<close>.  An infinite value renders as \<open>inf\<close> or
  \<open>-inf\<close> and a NaN as \<open>nan\<close>.
\<close>

theorem muotoile_kwh_kaksi_desimaalia:
  "kaksi_desimaalia (muotoile_kwh (PyFinite s m e)) \<and>
   muotoile_kwh (PyFinite False 3 (- 1)) = ''1,50'' \<and>
   muotoile_kwh (PyFinite False 0 0) = ''0,00'' \<and>
   muotoile_kwh (PyInf False) = ''inf'' \<and>
   muotoile_kwh (PyInf True) = ''-inf'' \<and>
   muotoile_kwh PyNaN = ''nan''"
proof -
  have 1: "kaksi_desimaalia (muotoile_kwh (PyFinite s m e))"
    unfolding muotoile_kwh_PyFinite
    by (rule kaksi_desimaalia_muoto) (simp_all add: str_nat_numerot on_numero_numero)
  have 2: "muotoile_kwh (PyFinite False 3 (- 1)) = ''1,50''"
    by (simp add: muotoile_kwh_PyFinite sadasosat_def pyorista_def numero_def str_nat.simps)
  have 3: "muotoile_kwh (PyFinite False 0 0) = ''0,00''"
    by (simp add: muotoile_kwh_PyFinite sadasosat_def numero_def str_nat.simps)
  have 4: "muotoile_kwh (PyInf False) = ''inf''" "muotoile_kwh (PyInf True) = ''-inf''"
    "muotoile_kwh PyNaN = ''nan''"
    by (simp_all add: muotoile_kwh_def replace_def)
  from 1 2 3 4 show ?thesis by simp
qed

text \<open>
  Claim C7 as stated fails for a float that is not finite: positive infinity renders as
  \<open>inf\<close>, which has no decimal places and no comma.
\<close>

theorem muotoile_kwh_inf: "\<not> kaksi_desimaalia (muotoile_kwh (PyInf False))"
  by (simp add: muotoile_kwh_def replace_def kaksi_desimaalia_def on_numero_def)

section \<open>Properties of the weekday name\<close>

lemma weekday_range: "0 \<le> weekday p \<and> weekday p < 7"
  by (simp add: weekday_def)

lemma viikonpaivan_nimi_nth: "viikonpaivan_nimi p = Inr (nimet ! nat (weekday p))"
  using weekday_range[of p] by (simp add: viikonpaivan_nimi_def py_index_def nimet_def)

text \<open>
  Claim C10.  For every date the weekday index lies in the range 0 to 6, the list of names
  has seven elements, so the access never raises, and the function returns one of the
  seven Finnish weekday names.
\<close>

theorem viikonpaivan_nimi_total:
  "0 \<le> weekday p \<and> weekday p < 7 \<and> length nimet = 7 \<and>
   (\<exists>nimi. viikonpaivan_nimi p = Inr nimi \<and> nimi \<in> set nimet)"
proof -
  have l: "length nimet = 7" by (simp add: nimet_def)
  with weekday_range[of p] have "nat (weekday p) < length nimet" by linarith
  then have "nimet ! nat (weekday p) \<in> set nimet" by (rule nth_mem)
  with weekday_range[of p] l viikonpaivan_nimi_nth[of p] show ?thesis by simp
qed



section \<open>Properties of the Reporter\<close>

lemma raportti_rivi_ok:
  assumes "map_of d p = Some arvot" and "kolme_vaihetta arvot"
  shows "\<exists>r. raportti_rivi d p = Inr r"
proof -
  from assms(2) have "length (kulutus_kwh arvot) = 3" "length (tuotanto_kwh arvot) = 3"
    by (simp_all add: kolme_vaihetta_def)
  then obtain a b c a' b' c' where
    k: "kulutus_kwh arvot = [a, b, c]" and t: "tuotanto_kwh arvot = [a', b', c']"
    using length3_eq by blast
  show ?thesis
    by (simp add: raportti_rivi_def viikonpaivan_nimi_nth sitten_def assms(1) k t)
qed

lemma tulosta_rivit_ok:
  "\<forall>p\<in>set ps. \<exists>r. raportti_rivi d p = Inr r \<Longrightarrow>
   \<exists>rs. tulosta_rivit d tuloste ps = (tuloste @ rs, None) \<and>
        list_all2 (\<lambda>p r. raportti_rivi d p = Inr r) ps rs"
proof (induction ps arbitrary: tuloste)
  case Nil
  then show ?case by simp
next
  case (Cons p ps)
  from Cons.prems obtain r where r: "raportti_rivi d p = Inr r" by auto
  from Cons.prems have "\<forall>p\<in>set ps. \<exists>r. raportti_rivi d p = Inr r" by simp
  from Cons.IH[OF this, of "tuloste @ [r]"] obtain rs where
    "tulosta_rivit d (tuloste @ [r]) ps = ((tuloste @ [r]) @ rs, None)"
    "list_all2 (\<lambda>p r. raportti_rivi d p = Inr r) ps rs"
    by blast
  with r have "tulosta_rivit d tuloste (p # ps) = (tuloste @ (r # rs), None) \<and>
      list_all2 (\<lambda>p r. raportti_rivi d p = Inr r) (p # ps) (r # rs)"
    by simp
  then show ?case by blast
qed

lemma date_key_inj: "date_key p = date_key q \<Longrightarrow> p = q"
  by (cases p, cases q) (simp add: date_key_def)

lemma inj_date_key: "inj_on date_key A"
  by (rule inj_onI) (rule date_key_inj)

lemma jarjestetyt_paivat:
  assumes "distinct ps"
  shows "sorted_wrt (\<lambda>p q. date_key p < date_key q) (sort_key date_key ps)"
proof -
  have "distinct (sort_key date_key ps)" using assms by simp
  then have "distinct (map date_key (sort_key date_key ps))"
    by (simp add: distinct_map inj_date_key)
  moreover have "sorted (map date_key (sort_key date_key ps))" by simp
  ultimately have "sorted_wrt (<) (map date_key (sort_key date_key ps))"
    by (simp add: strict_sorted_iff)
  then show ?thesis by (simp add: sorted_wrt_map)
qed

lemma sort_key_yksikasitteinen:
  assumes "distinct xs" "distinct ys" "set xs = set ys"
  shows "sort_key date_key xs = sort_key date_key ys"
proof -
  have dx: "distinct (map date_key (sort_key date_key xs))"
    using assms(1) by (simp add: distinct_map inj_date_key)
  have dy: "distinct (map date_key (sort_key date_key ys))"
    using assms(2) by (simp add: distinct_map inj_date_key)
  have "set (map date_key (sort_key date_key xs)) = set (map date_key (sort_key date_key ys))"
    using assms(3) by simp
  with dx dy have "map date_key (sort_key date_key xs) = map date_key (sort_key date_key ys)"
    by (intro sorted_distinct_set_unique) simp_all
  then show ?thesis
    by (rule map_inj_on) (rule inj_date_key)
qed

lemma tulosta_rivit_cong:
  "map_of d = map_of d' \<Longrightarrow> tulosta_rivit d tuloste ps = tulosta_rivit d' tuloste ps"
proof (induction ps arbitrary: tuloste)
  case Nil
  then show ?case by simp
next
  case (Cons p ps)
  from Cons.prems have "raportti_rivi d p = raportti_rivi d' p"
    by (simp add: raportti_rivi_def)
  with Cons show ?case by (simp split: sum.splits)
qed

text \<open>
  Claim C6.  For every day-to-totals mapping (distinct days, three values per tuple) the
  Reporter prints the header and then exactly one row per day, and the rows are those of
  the days in strictly ascending date order; the output does not depend on the order in
  which the days were inserted into the mapping.
\<close>

theorem tulosta_raportti_jarjestys:
  assumes "distinct (dict_keys d)"
    and "list_all (\<lambda>(p, arvot). kolme_vaihetta arvot) d"
  shows "(\<exists>paivat rivit.
            tulosta_raportti d = (otsikko @ rivit, None) \<and>
            length rivit = length d \<and>
            list_all2 (\<lambda>p r. raportti_rivi d p = Inr r) paivat rivit \<and>
            set paivat = set (dict_keys d) \<and>
            sorted_wrt (\<lambda>p q. date_key p < date_key q) paivat) \<and>
         (\<forall>d'. distinct (dict_keys d') \<and> set d' = set d \<longrightarrow>
            tulosta_raportti d' = tulosta_raportti d)"
proof -
  let ?ps = "sort_key date_key (dict_keys d)"
  have "\<exists>r. raportti_rivi d p = Inr r" if "p \<in> set ?ps" for p
  proof -
    from that obtain arvot where pa: "(p, arvot) \<in> set d"
      by (auto simp: dict_keys_def)
    with assms(1) have "map_of d p = Some arvot" by (simp add: dict_keys_def)
    moreover from pa assms(2) have "kolme_vaihetta arvot" by (auto simp: list_all_iff)
    ultimately show ?thesis by (rule raportti_rivi_ok)
  qed
  then have "\<forall>p\<in>set ?ps. \<exists>r. raportti_rivi d p = Inr r" by blast
  from tulosta_rivit_ok[OF this, of otsikko] obtain rs where
    rs: "tulosta_raportti d = (otsikko @ rs, None)"
      "list_all2 (\<lambda>p r. raportti_rivi d p = Inr r) ?ps rs"
    by (auto simp: tulosta_raportti_def)
  from rs(2) have "length ?ps = length rs" by (rule list_all2_lengthD)
  then have "length rs = length ?ps" by (rule sym)
  then have len: "length rs = length d" by (simp add: dict_keys_def)
  have s: "sorted_wrt (\<lambda>p q. date_key p < date_key q) ?ps"
    using assms(1) by (rule jarjestetyt_paivat)
  have "set ?ps = set (dict_keys d)" by simp
  with rs len s have 1: "\<exists>paivat rivit.
            tulosta_raportti d = (otsikko @ rivit, None) \<and>
            length rivit = length d \<and>
            list_all2 (\<lambda>p r. raportti_rivi d p = Inr r) paivat rivit \<and>
            set paivat = set (dict_keys d) \<and>
            sorted_wrt (\<lambda>p q. date_key p < date_key q) paivat"
    by blast
  have 2: "tulosta_raportti d' = tulosta_raportti d"
    if d': "distinct (dict_keys d')" "set d' = set d" for d'
  proof -
    from d' assms(1) have m: "map_of d' = map_of d"
      by (simp add: dict_keys_def map_of_inject_set)
    from d'(2) have "set (dict_keys d') = set (dict_keys d)" by (simp add: dict_keys_def)
    with d'(1) assms(1) have "sort_key date_key (dict_keys d') = sort_key date_key (dict_keys d)"
      by (intro sort_key_yksikasitteinen)
    with tulosta_rivit_cong[OF m] show ?thesis
      by (simp add: tulosta_raportti_def)
  qed
  from 1 2 show ?thesis by blast
qed

theorem tulosta_raportti_jarjestys_witness:
  "distinct (dict_keys esim_summat) \<and>
   list_all (\<lambda>(p, arvot). kolme_vaihetta arvot) esim_summat \<and>
   (\<exists>paivat rivit.
      tulosta_raportti esim_summat = (otsikko @ rivit, None) \<and>
      length rivit = length esim_summat \<and>
      list_all2 (\<lambda>p r. raportti_rivi esim_summat p = Inr r) paivat rivit \<and>
      set paivat = set (dict_keys esim_summat) \<and>
      sorted_wrt (\<lambda>p q. date_key p < date_key q) paivat)"
proof -
  have 1: "distinct (dict_keys esim_summat)"
    by (simp add: esim_summat_def dict_keys_def)
  have 2: "list_all (\<lambda>(p, arvot). kolme_vaihetta arvot) esim_summat"
    by (simp add: esim_summat_def kolme_vaihetta_def)
  from 1 2 tulosta_raportti_jarjestys[OF 1 2] show ?thesis by blast
qed

text \<open>
  Claim C5.  Aggregating the empty list of Measurements yields the empty mapping, without
  an exception, and the report of an empty mapping, like the whole run on no rows, is the
  header alone, again without an exception.
\<close>

theorem tyhja_syote:
  "laske_paivasummat fadd fdiv nolla tuhat [] = Inr [] \<and>
   tulosta_raportti [] = (otsikko, None) \<and>
   main parse_iso parse_float fadd fdiv [] = (otsikko, None)"
  by (simp add: laske_paivasummat_def tulosta_raportti_def dict_keys_def main_def lue_data_def)

end
